theory Spec2Isabelle
  imports Complex_Main "HOL-Library.Word"
begin

section \<open>JavaScript values\<close>

text \<open>
  A JavaScript string is a sequence of 16-bit code units. String literals of the source
  whose characters all lie below U+0100 are written with \<open>js\<close>, one code unit per
  character (\<open>CHR 0xE9\<close> is U+00E9, \<open>CHR 0xE3\<close> is U+00E3).
\<close>

type_synonym jsstring = "16 word list"

definition js :: "string \<Rightarrow> jsstring" where
  "js s = map of_char s"

text \<open>
  A Number is a double: a rational, NaN or an infinity. Every finite double is a rational,
  and \<open>Math.round\<close> is exact on them, so finite numbers are kept as rationals. The sign
  of zero is not represented.
\<close>

datatype jsnum = Fin rat | NaN | PosInf | NegInf

datatype jsval =
    JUndefined
  | JNull
  | JBool bool
  | JNum jsnum
  | JStr jsstring
  | JArr "jsval list"
  | JObj "(jsstring \<times> jsval) list"

text \<open>ToBoolean, as used by \<open>!\<close> and \<open>||\<close>.\<close>

fun truthy :: "jsval \<Rightarrow> bool" where
  "truthy JUndefined = False"
| "truthy JNull = False"
| "truthy (JBool b) = b"
| "truthy (JNum n) = (n \<noteq> Fin 0 \<and> n \<noteq> NaN)"
| "truthy (JStr s) = (s \<noteq> [])"
| "truthy (JArr xs) = True"
| "truthy (JObj kvs) = True"

text \<open>\<open>a || b\<close> for operands without effects.\<close>

definition js_or :: "jsval \<Rightarrow> jsval \<Rightarrow> jsval" where
  "js_or a b = (if truthy a then a else b)"

section \<open>The code-to-presentation mapping\<close>

record presentation =
  icon :: jsstring
  label :: jsstring
  color :: jsstring

text \<open>
  \<open>getWeatherDetails\<close> (App.js, lines 66 to 76) on an integer code: a chain of
  \<open>if (...) return\<close> statements, tested from top to bottom, and a final \<open>return\<close>.
\<close>

definition getWeatherDetails :: "int \<Rightarrow> presentation" where
  "getWeatherDetails code =
    (if code = 0 then
       \<lparr>icon = js ''weather-sunny'', label = js (''C'' @ [CHR 0xE9] @ ''u Limpo''),
        color = js ''#FDB813''\<rparr>
     else if code \<ge> 1 \<and> code \<le> 3 then
       \<lparr>icon = js ''weather-partly-cloudy'', label = js ''Parcialmente Nublado'',
        color = js ''#A0A0A0''\<rparr>
     else if code \<ge> 45 \<and> code \<le> 48 then
       \<lparr>icon = js ''weather-fog'', label = js ''Nevoeiro'', color = js ''#787878''\<rparr>
     else if code \<ge> 51 \<and> code \<le> 67 then
       \<lparr>icon = js ''weather-rainy'', label = js ''Chuva'', color = js ''#4299E1''\<rparr>
     else if code \<ge> 71 \<and> code \<le> 77 then
       \<lparr>icon = js ''weather-snowy'', label = js ''Neve'', color = js ''#90CDF4''\<rparr>
     else if code \<ge> 80 \<and> code \<le> 82 then
       \<lparr>icon = js ''weather-pouring'', label = js ''Pancadas de Chuva'',
        color = js ''#2B6CB0''\<rparr>
     else if code \<ge> 95 \<and> code \<le> 99 then
       \<lparr>icon = js ''weather-lightning'', label = js ''Tempestade'', color = js ''#805AD5''\<rparr>
     else
       \<lparr>icon = js ''weather-sunny'', label = js (''C'' @ [CHR 0xE9] @ ''u Limpo''),
        color = js ''#FDB813''\<rparr>)"

text \<open>
  The conditions of the seven \<open>if\<close> statements, in the order of the source, each with
  the presentation its branch returns.
\<close>

definition range_table :: "((int \<Rightarrow> bool) \<times> presentation) list" where
  "range_table =
    [(\<lambda>code. code = 0,
      \<lparr>icon = js ''weather-sunny'', label = js (''C'' @ [CHR 0xE9] @ ''u Limpo''),
       color = js ''#FDB813''\<rparr>),
     (\<lambda>code. code \<ge> 1 \<and> code \<le> 3,
      \<lparr>icon = js ''weather-partly-cloudy'', label = js ''Parcialmente Nublado'',
       color = js ''#A0A0A0''\<rparr>),
     (\<lambda>code. code \<ge> 45 \<and> code \<le> 48,
      \<lparr>icon = js ''weather-fog'', label = js ''Nevoeiro'', color = js ''#787878''\<rparr>),
     (\<lambda>code. code \<ge> 51 \<and> code \<le> 67,
      \<lparr>icon = js ''weather-rainy'', label = js ''Chuva'', color = js ''#4299E1''\<rparr>),
     (\<lambda>code. code \<ge> 71 \<and> code \<le> 77,
      \<lparr>icon = js ''weather-snowy'', label = js ''Neve'', color = js ''#90CDF4''\<rparr>),
     (\<lambda>code. code \<ge> 80 \<and> code \<le> 82,
      \<lparr>icon = js ''weather-pouring'', label = js ''Pancadas de Chuva'',
       color = js ''#2B6CB0''\<rparr>),
     (\<lambda>code. code \<ge> 95 \<and> code \<le> 99,
      \<lparr>icon = js ''weather-lightning'', label = js ''Tempestade'', color = js ''#805AD5''\<rparr>)]"

section \<open>Built-in operations the lookup uses\<close>

text \<open>
  \<open>String.prototype.trim\<close> removes leading and trailing WhiteSpace and LineTerminator
  code points (ECMAScript, 22.1.3.32): TAB, LF, VT, FF, CR, SPACE, NBSP, U+1680,
  U+2000 to U+200A, U+2028, U+2029, U+202F, U+205F, U+3000 and U+FEFF.
\<close>

definition is_white_space :: "16 word \<Rightarrow> bool" where
  "is_white_space c \<longleftrightarrow>
     (0x0009 \<le> c \<and> c \<le> 0x000D) \<or> c = 0x0020 \<or> c = 0x00A0 \<or> c = 0x1680 \<or>
     (0x2000 \<le> c \<and> c \<le> 0x200A) \<or> c = 0x2028 \<or> c = 0x2029 \<or> c = 0x202F \<or>
     c = 0x205F \<or> c = 0x3000 \<or> c = 0xFEFF"

definition trim :: "jsstring \<Rightarrow> jsstring" where
  "trim s = rev (dropWhile is_white_space (rev (dropWhile is_white_space s)))"

text \<open>
  Errors are \<open>Error\<close> objects; the handler of the lookup reads their \<open>message\<close> only.
\<close>

datatype js_error =
    Error jsstring
  | TypeError jsstring
  | URIError jsstring
  | SyntaxError jsstring

fun message :: "js_error \<Rightarrow> jsstring" where
  "message (Error m) = m"
| "message (TypeError m) = m"
| "message (URIError m) = m"
| "message (SyntaxError m) = m"

text \<open>
  The two errors the engine itself raises here: reading a property of \<open>undefined\<close> or
  \<open>null\<close>, and \<open>encodeURIComponent\<close> on a lone surrogate. Their message texts are
  chosen by the engine.
\<close>

datatype fault = ReadProperty jsval jsstring | MalformedURI

datatype request =
    Geocoding jsstring      \<comment> \<open>GET geocoding-api.open-meteo.com/v1/search, \<open>name\<close> parameter
                                 \<open>encodeURIComponent(city)\<close>, \<open>count=1\<close>, \<open>language=pt\<close>,
                                 \<open>format=json\<close>; the argument is \<open>city\<close>\<close>
  | Forecast jsval jsval    \<comment> \<open>GET api.open-meteo.com/v1/forecast with \<open>latitude\<close> and
                                 \<open>longitude\<close>, \<open>current=temperature_2m,weather_code\<close>,
                                 \<open>timezone=auto\<close>\<close>

text \<open>
  What \<open>await fetch(url)\<close> followed by \<open>await response.json()\<close> gives: the decoded body,
  the error either promise rejected with, or nothing when one of them never settles.
\<close>

datatype response = Resolves jsval | Rejects js_error | Pending

text \<open>
  What a run depends on and the source does not fix: the network, the engine's message
  texts, ToNumber on strings (it never raises), and ToNumber and ToString on arrays and
  objects. The last two call \<open>valueOf\<close> and \<open>toString\<close>, which a decoded object can
  shadow with its own properties (as \<open>{"toString": 1}\<close> does), so they may raise.
\<close>

record env =
  respond :: "request \<Rightarrow> response"
  engine_message :: "fault \<Rightarrow> jsstring"
  string_to_number :: "jsstring \<Rightarrow> jsnum"
  object_to_number :: "jsval \<Rightarrow> js_error + jsnum"
  object_to_string :: "jsval \<Rightarrow> js_error + jsstring"

text \<open>
  \<open>encodeURIComponent\<close> raises URIError exactly when the string holds a surrogate code
  unit that is not part of a high-low pair (ECMAScript, 19.2.6.5 Encode).
\<close>

fun lone_surrogate :: "jsstring \<Rightarrow> bool" where
  "lone_surrogate [] = False"
| "lone_surrogate (c # cs) =
     (if 0xDC00 \<le> c \<and> c \<le> 0xDFFF then True
      else if 0xD800 \<le> c \<and> c \<le> 0xDBFF then
        (case cs of
           [] \<Rightarrow> True
         | d # ds \<Rightarrow> if 0xDC00 \<le> d \<and> d \<le> 0xDFFF then lone_surrogate ds else True)
      else lone_surrogate cs)"

definition encodeURIComponent :: "env \<Rightarrow> jsstring \<Rightarrow> js_error + jsstring" where
  \<comment> \<open>on success the request records the unencoded text\<close>
  "encodeURIComponent e s =
     (if lone_surrogate s then Inl (URIError (engine_message e MalformedURI)) else Inr s)"

text \<open>
  Property read \<open>v.p\<close> and \<open>v[0]\<close>, for the property names this program reads
  (\<open>results\<close>, \<open>length\<close>, \<open>0\<close>, \<open>latitude\<close>, \<open>longitude\<close>, \<open>name\<close>, \<open>admin1\<close>,
  \<open>country_code\<close>, \<open>current\<close>, \<open>temperature_2m\<close>, \<open>weather_code\<close>): none of them is
  inherited from a prototype, apart from \<open>length\<close> and the indices of arrays and strings.
\<close>

fun get :: "env \<Rightarrow> jsval \<Rightarrow> jsstring \<Rightarrow> js_error + jsval" where
  "get e JUndefined p = Inl (TypeError (engine_message e (ReadProperty JUndefined p)))"
| "get e JNull p = Inl (TypeError (engine_message e (ReadProperty JNull p)))"
| "get e (JBool b) p = Inr JUndefined"
| "get e (JNum n) p = Inr JUndefined"
| "get e (JStr s) p =
     (if p = js ''length'' then Inr (JNum (Fin (of_nat (length s))))
      else if p = js ''0'' then
        (case s of [] \<Rightarrow> Inr JUndefined | c # cs \<Rightarrow> Inr (JStr [c]))
      else Inr JUndefined)"
| "get e (JArr xs) p =
     (if p = js ''length'' then Inr (JNum (Fin (of_nat (length xs))))
      else if p = js ''0'' then
        (case xs of [] \<Rightarrow> Inr JUndefined | x # ys \<Rightarrow> Inr x)
      else Inr JUndefined)"
| "get e (JObj kvs) p =
     (case map_of kvs p of None \<Rightarrow> Inr JUndefined | Some v \<Rightarrow> Inr v)"

text \<open>\<open>Math.round(v)\<close>: ToNumber, then the nearest integer, a tie going up.\<close>

fun ToNumber :: "env \<Rightarrow> jsval \<Rightarrow> js_error + jsnum" where
  "ToNumber e JUndefined = Inr NaN"
| "ToNumber e JNull = Inr (Fin 0)"
| "ToNumber e (JBool b) = Inr (if b then Fin 1 else Fin 0)"
| "ToNumber e (JNum n) = Inr n"
| "ToNumber e (JStr s) = Inr (string_to_number e s)"
| "ToNumber e (JArr xs) = object_to_number e (JArr xs)"
| "ToNumber e (JObj kvs) = object_to_number e (JObj kvs)"

fun Math_round :: "jsnum \<Rightarrow> jsnum" where
  "Math_round (Fin x) = Fin (of_int \<lfloor>x + 1 / 2\<rfloor>)"
| "Math_round n = n"

text \<open>
  A substitution \<open>${v}\<close> of a template literal: ToString of \<open>v\<close>. On \<open>undefined\<close>,
  \<open>null\<close>, a boolean, a number or a string it cannot raise. The request records \<open>v\<close>
  itself, so that is what a substitution that does not raise gives here.
\<close>

fun substitution :: "env \<Rightarrow> jsval \<Rightarrow> js_error + jsval" where
  "substitution e (JArr xs) =
     (case object_to_string e (JArr xs) of Inl err \<Rightarrow> Inl err | Inr s \<Rightarrow> Inr (JArr xs))"
| "substitution e (JObj kvs) =
     (case object_to_string e (JObj kvs) of Inl err \<Rightarrow> Inl err | Inr s \<Rightarrow> Inr (JObj kvs))"
| "substitution e v = Inr v"

section \<open>The lookup\<close>

text \<open>
  The four pieces of component state (App.js, lines 16 to 19); \<open>null\<close> is \<open>JNull\<close>.
\<close>

record app_state =
  city :: jsstring
  weatherData :: jsval
  loading :: bool
  error :: jsval

definition initial_state :: app_state where
  "initial_state = \<lparr>city = [], weatherData = JNull, loading = False, error = JNull\<rparr>"

text \<open>What a run does outside the component state, in order.\<close>

datatype effect = KeyboardDismiss | Fetch request

text \<open>How a block of statements ends: normally, by a raised error, or never.\<close>

datatype 'a completion = Normal 'a | Throw js_error | Hang

text \<open>The promise an \<open>async\<close> function returns.\<close>

datatype promise = Fulfilled | Rejected js_error | Unsettled

text \<open>
  Lines 38 to 42, up to the value that is destructured: the \<open>results\<close> check and
  \<open>geoData.results[0]\<close>.
\<close>

definition first_result :: "env \<Rightarrow> jsval \<Rightarrow> js_error + jsval" where
  "first_result e geoData =
     (case get e geoData (js ''results'') of
        Inl err \<Rightarrow> Inl err
      | Inr results \<Rightarrow>
          if \<not> truthy results then
            Inl (Error (js (''Cidade n'' @ [CHR 0xE3] @ ''o encontrada.'')))
          else
            (case get e results (js ''length'') of
               Inl err \<Rightarrow> Inl err
             | Inr len \<Rightarrow>
                 if len = JNum (Fin 0) then
                   Inl (Error (js (''Cidade n'' @ [CHR 0xE3] @ ''o encontrada.'')))
                 else get e results (js ''0'')))"

text \<open>
  Line 42: \<open>const { latitude, longitude, name, admin1, country_code } = ...\<close>; it raises
  TypeError on \<open>undefined\<close> and \<open>null\<close>, which is what the first \<open>get\<close> does.
\<close>

definition destructure ::
  "env \<Rightarrow> jsval \<Rightarrow> js_error + (jsval \<times> jsval \<times> jsval \<times> jsval \<times> jsval)" where
  "destructure e r =
     (case get e r (js ''latitude'') of Inl err \<Rightarrow> Inl err | Inr latitude \<Rightarrow>
      case get e r (js ''longitude'') of Inl err \<Rightarrow> Inl err | Inr longitude \<Rightarrow>
      case get e r (js ''name'') of Inl err \<Rightarrow> Inl err | Inr name \<Rightarrow>
      case get e r (js ''admin1'') of Inl err \<Rightarrow> Inl err | Inr admin1 \<Rightarrow>
      case get e r (js ''country_code'') of Inl err \<Rightarrow> Inl err | Inr country_code \<Rightarrow>
        Inr (latitude, longitude, name, admin1, country_code))"

text \<open>Lines 50 to 56: the object literal passed to \<open>setWeatherData\<close>.\<close>

definition reading :: "env \<Rightarrow> jsval \<Rightarrow> jsval \<Rightarrow> jsval \<Rightarrow> jsval \<Rightarrow> js_error + jsval" where
  "reading e name admin1 country_code weatherDataResult =
     (case get e weatherDataResult (js ''current'') of Inl err \<Rightarrow> Inl err | Inr cur \<Rightarrow>
      case get e cur (js ''temperature_2m'') of Inl err \<Rightarrow> Inl err | Inr t \<Rightarrow>
      case ToNumber e t of Inl err \<Rightarrow> Inl err | Inr n \<Rightarrow>
      case get e weatherDataResult (js ''current'') of Inl err \<Rightarrow> Inl err | Inr cur' \<Rightarrow>
      case get e cur' (js ''weather_code'') of Inl err \<Rightarrow> Inl err | Inr wc \<Rightarrow>
        Inr (JObj [(js ''city'', name), (js ''region'', admin1), (js ''country'', country_code),
                   (js ''temp'', JNum (Math_round n)), (js ''code'', wc)]))"

text \<open>
  The body of \<open>try\<close> (lines 31 to 56). It gives the effects it had and how it ended; on a
  normal end, the argument of \<open>setWeatherData\<close>. Both URLs are built before \<open>fetch\<close> is
  called, so an error raised while building one leaves that request unmade.
\<close>

definition try_block :: "env \<Rightarrow> jsstring \<Rightarrow> effect list \<times> jsval completion" where
  "try_block e c =
     (case encodeURIComponent e c of
        Inl err \<Rightarrow> ([], Throw err)
      | Inr q \<Rightarrow>
     (case respond e (Geocoding q) of
        Pending \<Rightarrow> ([Fetch (Geocoding q)], Hang)
      | Rejects err \<Rightarrow> ([Fetch (Geocoding q)], Throw err)
      | Resolves geoData \<Rightarrow>
     (case first_result e geoData of
        Inl err \<Rightarrow> ([Fetch (Geocoding q)], Throw err)
      | Inr r \<Rightarrow>
     (case destructure e r of
        Inl err \<Rightarrow> ([Fetch (Geocoding q)], Throw err)
      | Inr (latitude, longitude, name, admin1, country_code) \<Rightarrow>
     (case substitution e latitude of
        Inl err \<Rightarrow> ([Fetch (Geocoding q)], Throw err)
      | Inr la \<Rightarrow>
     (case substitution e longitude of
        Inl err \<Rightarrow> ([Fetch (Geocoding q)], Throw err)
      | Inr lo \<Rightarrow>
     (case respond e (Forecast la lo) of
        Pending \<Rightarrow> ([Fetch (Geocoding q), Fetch (Forecast la lo)], Hang)
      | Rejects err \<Rightarrow> ([Fetch (Geocoding q), Fetch (Forecast la lo)], Throw err)
      | Resolves weatherDataResult \<Rightarrow>
     (case reading e name admin1 country_code weatherDataResult of
        Inl err \<Rightarrow> ([Fetch (Geocoding q), Fetch (Forecast la lo)], Throw err)
      | Inr w \<Rightarrow> ([Fetch (Geocoding q), Fetch (Forecast la lo)], Normal w)))))))))"

record run =
  final :: app_state
  effects :: "effect list"
  promise :: promise

text \<open>
  A lookup writes the state twice. Lines 26 to 28 run within the call, before the first
  \<open>await\<close>. The writes that follow the last \<open>await\<close> run together once the body of
  \<open>try\<close> has ended: \<open>setWeatherData\<close> (line 50) or \<open>setError\<close> (line 59), then
  \<open>setLoading(false)\<close> (line 61). Each \<open>set\<close> replaces one piece of the state as it is
  at that moment, which other lookups may have written in between.
\<close>

definition start :: "app_state \<Rightarrow> app_state" where
  "start st = st\<lparr>loading := True, error := JNull, weatherData := JNull\<rparr>"

fun finish :: "jsval completion \<Rightarrow> app_state \<Rightarrow> app_state" where
  "finish (Normal w) st = st\<lparr>weatherData := w, loading := False\<rparr>"
| "finish (Throw err) st =
     st\<lparr>error := js_or (JStr (message err)) (JStr (js ''Erro ao buscar dados.'')),
        loading := False\<rparr>"
| "finish Hang st = st"

text \<open>
  \<open>fetchWeather\<close> (lines 21 to 63), called in state \<open>st\<close> and run alone: nothing else
  writes the state between its call and its end. A run that never settles stays in the
  state the statements before \<open>try\<close> left.
\<close>

definition fetchWeather :: "env \<Rightarrow> app_state \<Rightarrow> run" where
  "fetchWeather e st =
     (if \<not> truthy (JStr (trim (city st))) then
        \<lparr>final = st, effects = [], promise = Fulfilled\<rparr>
      else
        (case try_block e (city st) of
           (fx, c) \<Rightarrow>
             \<lparr>final = finish c (start st), effects = KeyboardDismiss # fx,
              promise = (case c of Hang \<Rightarrow> Unsettled | _ \<Rightarrow> Fulfilled)\<rparr>))"







text \<open>The requests among the effects of a run.\<close>

definition geocoding_requests :: "effect list \<Rightarrow> jsstring list" where
  "geocoding_requests fx = [q. Fetch (Geocoding q) \<leftarrow> fx]"

definition forecast_requests :: "effect list \<Rightarrow> (jsval \<times> jsval) list" where
  "forecast_requests fx = [(la, lo). Fetch (Forecast la lo) \<leftarrow> fx]"

text \<open>The two responses of the round trip of the specification.\<close>

definition sao_paulo_geo :: jsval where
  "sao_paulo_geo =
     JObj [(js ''results'',
       JArr [JObj [(js ''latitude'', JNum (Fin (- (47 / 2)))),
                   (js ''longitude'', JNum (Fin (- (233 / 5)))),
                   (js ''name'', JStr (js (''S'' @ [CHR 0xE3] @ ''o Paulo''))),
                   (js ''admin1'', JStr (js ''SP'')),
                   (js ''country_code'', JStr (js ''BR''))]])]"

definition sao_paulo_forecast :: jsval where
  "sao_paulo_forecast =
     JObj [(js ''current'',
       JObj [(js ''temperature_2m'', JNum (Fin (107 / 5))),
             (js ''weather_code'', JNum (Fin 3))])]"

definition sao_paulo_net :: "request \<Rightarrow> response" where
  "sao_paulo_net r =
     (case r of
        Geocoding q \<Rightarrow> if q = js ''sao paulo'' then Resolves sao_paulo_geo else Pending
      | Forecast la lo \<Rightarrow>
          if la = JNum (Fin (- (47 / 2))) \<and> lo = JNum (Fin (- (233 / 5)))
          then Resolves sao_paulo_forecast else Pending)"

text \<open>Environments for concrete runs.\<close>

definition example_engine_message :: "fault \<Rightarrow> jsstring" where
  "example_engine_message f =
     (case f of
        ReadProperty v p \<Rightarrow> js ''Cannot read property of undefined''
      | MalformedURI \<Rightarrow> js ''URI malformed'')"

definition env_of :: "(request \<Rightarrow> response) \<Rightarrow> env" where
  "env_of net =
     \<lparr>respond = net, engine_message = example_engine_message,
      string_to_number = (\<lambda>s. NaN),
      object_to_number = (\<lambda>v. Inr NaN),
      object_to_string = (\<lambda>v. Inr (js ''[object Object]''))\<rparr>"

definition empty_results_net :: "request \<Rightarrow> response" where
  "empty_results_net r = Resolves (JObj [(js ''results'', JArr [])])"




definition no_current_net :: "request \<Rightarrow> response" where
  "no_current_net r =
     (case r of
        Geocoding q \<Rightarrow> Resolves sao_paulo_geo
      | Forecast la lo \<Rightarrow> Resolves (JObj []))"

definition empty_current_net :: "request \<Rightarrow> response" where
  "empty_current_net r =
     (case r of
        Geocoding q \<Rightarrow> Resolves sao_paulo_geo
      | Forecast la lo \<Rightarrow> Resolves (JObj [(js ''current'', JObj [])]))"

definition hanging_net :: "request \<Rightarrow> response" where
  "hanging_net r = Pending"

definition sao_paulo_query :: app_state where
  "sao_paulo_query = initial_state\<lparr>city := js ''sao paulo''\<rparr>"



text \<open>The ranges of \<open>range_table\<close> that hold a code.\<close>

definition matching_ranges :: "int \<Rightarrow> ((int \<Rightarrow> bool) \<times> presentation) list" where
  "matching_ranges code = filter (\<lambda>r. fst r code) range_table"

text \<open>The presentation of the last \<open>return\<close> of \<open>getWeatherDetails\<close>.\<close>

definition clear_sky :: presentation where
  "clear_sky =
     \<lparr>icon = js ''weather-sunny'', label = js (''C'' @ [CHR 0xE9] @ ''u Limpo''),
      color = js ''#FDB813''\<rparr>"

section \<open>Facts about the built-in operations and the shape of a run\<close>

text \<open>\<open>js\<close> is injective: literals are equal exactly when their texts are.\<close>

lemma unat_of_char: "unat (of_char c :: 16 word) = of_char c"
proof -
  have "(of_char c :: nat) < 2 ^ 16"
    using of_char_Char [where ?'a = nat] by (cases c) simp
  then have "unat (of_nat (of_char c) :: 16 word) = of_char c"
    by (simp add: unat_of_nat)
  then show ?thesis
    by (simp only: of_nat_of_char)
qed

lemma inj_of_char_word: "inj (of_char :: char \<Rightarrow> 16 word)"
proof (rule injI)
  fix c d :: char
  assume "(of_char c :: 16 word) = of_char d"
  then have "unat (of_char c :: 16 word) = unat (of_char d :: 16 word)" by simp
  then have "(of_char c :: nat) = of_char d" by (simp only: unat_of_char)
  then show "c = d" using inj_of_char [where ?'a = nat] by (simp add: inj_def)
qed

lemma js_eq_iff [simp]: "js a = js b \<longleftrightarrow> a = b"
  by (simp add: js_def inj_map_eq_map [OF inj_of_char_word])

lemma js_Nil_iff [simp]: "js a = [] \<longleftrightarrow> a = []"
  by (simp add: js_def)

text \<open>A string trims to the empty string exactly when all its code units are white space.\<close>

lemma trim_empty_iff: "trim s = [] \<longleftrightarrow> list_all is_white_space s"
proof -
  have "dropWhile is_white_space (rev (dropWhile is_white_space s)) = [] \<longleftrightarrow>
        dropWhile is_white_space (dropWhile is_white_space s) = []"
    by (simp only: dropWhile_eq_Nil_conv set_rev)
  also have "\<dots> \<longleftrightarrow> dropWhile is_white_space s = []"
    by (simp only: dropWhile_idem)
  also have "\<dots> \<longleftrightarrow> list_all is_white_space s"
    by (simp only: dropWhile_eq_Nil_conv list_all_iff)
  finally show ?thesis by (simp add: trim_def)
qed

text \<open>The run of \<open>fetchWeather\<close>, by the way the body of \<open>try\<close> ends.\<close>

lemma fetchWeather_blank:
  "trim (city st) = [] \<Longrightarrow> fetchWeather e st = \<lparr>final = st, effects = [], promise = Fulfilled\<rparr>"
  by (simp add: fetchWeather_def)

lemma fetchWeather_Normal:
  "trim (city st) \<noteq> [] \<Longrightarrow> try_block e (city st) = (fx, Normal w) \<Longrightarrow>
   fetchWeather e st =
     \<lparr>final = st\<lparr>loading := False, error := JNull, weatherData := w\<rparr>,
      effects = KeyboardDismiss # fx, promise = Fulfilled\<rparr>"
  by (simp add: fetchWeather_def start_def)

lemma fetchWeather_Throw:
  "trim (city st) \<noteq> [] \<Longrightarrow> try_block e (city st) = (fx, Throw err) \<Longrightarrow>
   fetchWeather e st =
     \<lparr>final = st\<lparr>loading := False,
                   error := JStr (if message err = [] then js ''Erro ao buscar dados.''
                                  else message err),
                   weatherData := JNull\<rparr>,
      effects = KeyboardDismiss # fx, promise = Fulfilled\<rparr>"
  by (simp add: fetchWeather_def start_def js_or_def)

lemma fetchWeather_Hang:
  "trim (city st) \<noteq> [] \<Longrightarrow> try_block e (city st) = (fx, Hang) \<Longrightarrow>
   fetchWeather e st =
     \<lparr>final = st\<lparr>loading := True, error := JNull, weatherData := JNull\<rparr>,
      effects = KeyboardDismiss # fx, promise = Unsettled\<rparr>"
  by (simp add: fetchWeather_def start_def)

lemma substitution_Inr: "substitution e v = Inr v' \<Longrightarrow> v' = v"
  by (cases v) (auto split: sum.splits)




lemma try_block_effects:
  "fst (try_block e c) = [] \<and> lone_surrogate c \<or>
   fst (try_block e c) = [Fetch (Geocoding c)] \<and> \<not> lone_surrogate c \<or>
   (\<exists>geoData results r la lo.
      \<not> lone_surrogate c \<and>
      respond e (Geocoding c) = Resolves geoData \<and>
      get e geoData (js ''results'') = Inr results \<and>
      get e results (js ''0'') = Inr r \<and>
      get e r (js ''latitude'') = Inr la \<and>
      get e r (js ''longitude'') = Inr lo \<and>
      fst (try_block e c) = [Fetch (Geocoding c), Fetch (Forecast la lo)])"
  by (auto simp: try_block_def encodeURIComponent_def first_result_def destructure_def
           split: sum.splits response.splits prod.splits if_splits
           dest!: substitution_Inr)

lemma nonblank_sao_paulo: "trim (js ''sao paulo'') \<noteq> []"
  by (simp add: trim_empty_iff js_def is_white_space_def)

lemma round_21_4: "Math_round (Fin (107 / 5)) = Fin 21"
  by code_simp

text \<open>
  The double nearest to 21.4 is 3011782250804019 / 2^47; it rounds to 21 as well.
\<close>

lemma round_21_4_double: "Math_round (Fin (3011782250804019 / 140737488355328)) = Fin 21"
  by code_simp

section \<open>The code-to-presentation mapping is total, with a default\<close>

text \<open>
  Claim C1. \<open>getWeatherDetails\<close> is a total function on the integers: every code gets
  one of the presentations of the table, and no code raises. Every code outside the
  ranges 1 to 3, 45 to 48, 51 to 67, 71 to 77, 80 to 82 and 95 to 99, a negative code or a
  code above 99 included, gets the presentation of code 0: icon \<open>weather-sunny\<close>, label
  \<open>Ceu Limpo\<close>, the second letter being U+00E9, color \<open>#FDB813\<close>.
\<close>

theorem getWeatherDetails_total_default:
  "getWeatherDetails code \<in> snd ` set range_table \<and>
   (code \<notin> {1..3} \<union> {45..48} \<union> {51..67} \<union> {71..77} \<union> {80..82} \<union> {95..99} \<longrightarrow>
      getWeatherDetails code = clear_sky \<and> getWeatherDetails code = getWeatherDetails 0)"
  by (simp add: getWeatherDetails_def range_table_def clear_sky_def)

theorem getWeatherDetails_total_default_witness:
  "(- 5 :: int) \<notin> {1..3} \<union> {45..48} \<union> {51..67} \<union> {71..77} \<union> {80..82} \<union> {95..99} \<and>
   (100 :: int) \<notin> {1..3} \<union> {45..48} \<union> {51..67} \<union> {71..77} \<union> {80..82} \<union> {95..99} \<and>
   getWeatherDetails 0 = getWeatherDetails (- 5) \<and>
   getWeatherDetails (- 5) = getWeatherDetails 100 \<and>
   getWeatherDetails 100 =
     \<lparr>icon = js ''weather-sunny'', label = js (''C'' @ [CHR 0xE9] @ ''u Limpo''),
      color = js ''#FDB813''\<rparr>"
proof -
  have h1: "(- 5 :: int) \<notin> {1..3} \<union> {45..48} \<union> {51..67} \<union> {71..77} \<union> {80..82} \<union> {95..99}"
    by simp
  have h2: "(100 :: int) \<notin> {1..3} \<union> {45..48} \<union> {51..67} \<union> {71..77} \<union> {80..82} \<union> {95..99}"
    by simp
  from h1 have a: "getWeatherDetails (- 5) = clear_sky \<and> getWeatherDetails (- 5) = getWeatherDetails 0"
    using getWeatherDetails_total_default [of "- 5"] by blast
  from h2 have b: "getWeatherDetails 100 = clear_sky \<and> getWeatherDetails 100 = getWeatherDetails 0"
    using getWeatherDetails_total_default [of 100] by blast
  have c: "getWeatherDetails 100 =
     \<lparr>icon = js ''weather-sunny'', label = js (''C'' @ [CHR 0xE9] @ ''u Limpo''),
      color = js ''#FDB813''\<rparr>"
    using b by (simp add: clear_sky_def)
  from a have d: "getWeatherDetails 0 = getWeatherDetails (- 5)"
    by (rule conjE) (rule sym)
  from a b have e: "getWeatherDetails (- 5) = getWeatherDetails 100"
    by (elim conjE) (rule trans [OF _ sym])
  from h1 h2 d e c show ?thesis by blast
qed

text \<open>
  Claim C2, as stated, asks that each code from 0 to 99 lies in exactly one of the seven
  ranges. Code 4 lies in none of them.
\<close>

theorem range_table_gap_counterexample:
  "(0 :: int) \<le> 4 \<and> (4 :: int) \<le> 99 \<and> matching_ranges 4 = []"
  by (simp add: matching_ranges_def range_table_def)

text \<open>
  Claim C2, amended. For every integer code at most one of the seven ranges holds it (so
  the ranges are pairwise disjoint), \<open>getWeatherDetails\<close> returns the presentation of
  the first range of the table that holds the code, and the clear-sky default when none
  does; so exactly one branch runs, the default counted as a branch. Being a function,
  it gives equal results on equal codes.
\<close>

theorem getWeatherDetails_first_match:
  "length (matching_ranges code) \<le> 1 \<and>
   getWeatherDetails code =
     (case find (\<lambda>r. fst r code) range_table of Some r \<Rightarrow> snd r | None \<Rightarrow> clear_sky) \<and>
   (length (matching_ranges code) = 1 \<or>
    matching_ranges code = [] \<and> getWeatherDetails code = clear_sky)"
  by (simp add: matching_ranges_def range_table_def getWeatherDetails_def clear_sky_def)

section \<open>Properties of the lookup\<close>

subsection \<open>Concrete queries\<close>

lemma nonblank_example: "trim (js ''x'') \<noteq> []"
  by (simp add: trim_empty_iff js_def is_white_space_def)

lemma wellformed_sao_paulo: "\<not> lone_surrogate (js ''sao paulo'')"
  by (simp add: js_def)

lemma wellformed_example: "\<not> lone_surrogate (js ''x'')"
  by (simp add: js_def)

subsection \<open>How a run ends\<close>

lemma try_block_cases:
  obtains
    (Normal) fx w where "try_block e c = (fx, Normal w)"
  | (Throw) fx err where "try_block e c = (fx, Throw err)"
  | (Hang) fx where "try_block e c = (fx, Hang)"
  by (cases "try_block e c", cases "snd (try_block e c)") auto

lemma fetchWeather_effects:
  "trim (city st) \<noteq> [] \<Longrightarrow>
   effects (fetchWeather e st) = KeyboardDismiss # fst (try_block e (city st))"
  by (simp add: fetchWeather_def split: prod.splits)

lemma fetchWeather_effects_blank:
  "trim (city st) = [] \<Longrightarrow> effects (fetchWeather e st) = []"
  by (simp add: fetchWeather_def)

lemma effects_nonblank:
  "x \<in> set (effects (fetchWeather e st)) \<Longrightarrow> trim (city st) \<noteq> []"
  by (auto simp: fetchWeather_def)

lemma issued_request:
  "Fetch q \<in> set (effects (fetchWeather e st)) \<Longrightarrow>
   trim (city st) \<noteq> [] \<and> Fetch q \<in> set (fst (try_block e (city st)))"
  using effects_nonblank [of "Fetch q" e st] fetchWeather_effects [of st e] by auto

lemma settled_run:
  assumes "trim (city st) \<noteq> []" and "promise (fetchWeather e st) \<noteq> Unsettled"
  shows "\<not> loading (final (fetchWeather e st)) \<and>
         (error (final (fetchWeather e st)) = JNull \<or>
          weatherData (final (fetchWeather e st)) = JNull)"
proof (cases rule: try_block_cases [of e "city st"])
  case (Normal fx w)
  from fetchWeather_Normal [OF assms(1) this] show ?thesis by simp
next
  case (Throw fx err)
  from fetchWeather_Throw [OF assms(1) this] show ?thesis by simp
next
  case (Hang fx)
  from fetchWeather_Hang [OF assms(1) this] assms(2) show ?thesis by simp
qed

text \<open>
  A lookup whose request is never answered stays as the statements before \<open>try\<close> left
  it: loading, with no error and no result.
\<close>

lemma unsettled_run:
  assumes "promise (fetchWeather e st) = Unsettled"
  shows "loading (final (fetchWeather e st)) \<and> error (final (fetchWeather e st)) = JNull \<and>
         weatherData (final (fetchWeather e st)) = JNull"
proof (cases "trim (city st) = []")
  case True
  with assms show ?thesis by (simp add: fetchWeather_blank)
next
  case False
  show ?thesis
  proof (cases rule: try_block_cases [of e "city st"])
    case (Normal fx w)
    from fetchWeather_Normal [OF False this] assms show ?thesis by simp
  next
    case (Throw fx err)
    from fetchWeather_Throw [OF False this] assms show ?thesis by simp
  next
    case (Hang fx)
    from fetchWeather_Hang [OF False this] show ?thesis by simp
  qed
qed

lemma hanging_run:
  "fetchWeather (env_of hanging_net) sao_paulo_query =
     \<lparr>final = sao_paulo_query\<lparr>loading := True, error := JNull, weatherData := JNull\<rparr>,
      effects = [KeyboardDismiss, Fetch (Geocoding (js ''sao paulo''))],
      promise = Unsettled\<rparr>"
proof -
  have t: "trim (city sao_paulo_query) \<noteq> []"
    by (simp add: sao_paulo_query_def nonblank_sao_paulo)
  have "try_block (env_of hanging_net) (city sao_paulo_query) =
    ([Fetch (Geocoding (js ''sao paulo''))], Hang)"
    by (simp add: sao_paulo_query_def try_block_def encodeURIComponent_def
          wellformed_sao_paulo env_of_def hanging_net_def)
  from fetchWeather_Hang [OF t this] show ?thesis by simp
qed

text \<open>
  Whatever the state it runs in, the end of a lookup that settles leaves the loading flag
  false.
\<close>

lemma finish_settled:
  "k \<noteq> Hang \<Longrightarrow> \<not> loading (finish k s)"
  by (cases k) simp_all




subsection \<open>The round trip of the specification\<close>

lemma sao_paulo_place:
  "(case first_result e sao_paulo_geo of Inl err \<Rightarrow> Inl err | Inr r \<Rightarrow> destructure e r) =
   Inr (JNum (Fin (- (47 / 2))), JNum (Fin (- (233 / 5))),
        JStr (js (''S'' @ [CHR 0xE3] @ ''o Paulo'')), JStr (js ''SP''), JStr (js ''BR''))"
  by (simp add: first_result_def sao_paulo_geo_def destructure_def)

lemma try_block_sao_paulo_forecast:
  assumes "respond e (Geocoding (js ''sao paulo'')) = Resolves sao_paulo_geo"
  shows "try_block e (js ''sao paulo'') =
    ([Fetch (Geocoding (js ''sao paulo'')),
      Fetch (Forecast (JNum (Fin (- (47 / 2)))) (JNum (Fin (- (233 / 5)))))],
     case respond e (Forecast (JNum (Fin (- (47 / 2)))) (JNum (Fin (- (233 / 5))))) of
       Pending \<Rightarrow> Hang
     | Rejects err \<Rightarrow> Throw err
     | Resolves w \<Rightarrow>
         (case reading e (JStr (js (''S'' @ [CHR 0xE3] @ ''o Paulo''))) (JStr (js ''SP''))
                 (JStr (js ''BR'')) w of
            Inl err \<Rightarrow> Throw err
          | Inr v \<Rightarrow> Normal v))"
  using sao_paulo_place [of e] assms
  by (auto simp: try_block_def encodeURIComponent_def wellformed_sao_paulo
           split: sum.splits response.splits)

lemma reading_sao_paulo:
  "reading e nm a1 cc sao_paulo_forecast =
   Inr (JObj [(js ''city'', nm), (js ''region'', a1), (js ''country'', cc),
              (js ''temp'', JNum (Fin 21)), (js ''code'', JNum (Fin 3))])"
  by (simp add: reading_def sao_paulo_forecast_def round_21_4 del: Math_round.simps)

lemma sao_paulo_settles:
  "promise (fetchWeather (env_of sao_paulo_net) sao_paulo_query) = Fulfilled"
proof -
  have h1: "respond (env_of sao_paulo_net) (Geocoding (js ''sao paulo'')) = Resolves sao_paulo_geo"
    by (simp add: env_of_def sao_paulo_net_def)
  have h2: "respond (env_of sao_paulo_net)
      (Forecast (JNum (Fin (- (47 / 2)))) (JNum (Fin (- (233 / 5))))) = Resolves sao_paulo_forecast"
    by (simp add: env_of_def sao_paulo_net_def)
  have t: "trim (city sao_paulo_query) \<noteq> []"
    by (simp add: sao_paulo_query_def nonblank_sao_paulo)
  have "try_block (env_of sao_paulo_net) (city sao_paulo_query) =
    (fst (try_block (env_of sao_paulo_net) (city sao_paulo_query)),
     Normal (JObj [(js ''city'', JStr (js (''S'' @ [CHR 0xE3] @ ''o Paulo''))),
                   (js ''region'', JStr (js ''SP'')),
                   (js ''country'', JStr (js ''BR'')),
                   (js ''temp'', JNum (Fin 21)),
                   (js ''code'', JNum (Fin 3))]))"
    by (simp add: sao_paulo_query_def try_block_sao_paulo_forecast [OF h1] h2 reading_sao_paulo)
  from fetchWeather_Normal [OF t this] show ?thesis by simp
qed

text \<open>
  Claim C6. With the geocoding response and the forecast response of the specification,
  the lookup of \<open>sao paulo\<close> stores the reading with city \<open>Sao Paulo\<close> (its second
  character being U+00E3), region \<open>SP\<close>, country \<open>BR\<close>, temperature 21 (21.4 rounded) and
  code 3, with no error and the loading flag cleared, after one geocoding and one forecast
  request; and \<open>getWeatherDetails 3\<close> is the partly-cloudy presentation. The source names
  the last two fields \<open>temp\<close> and \<open>code\<close>, and passes the reading to \<open>setWeatherData\<close>.
\<close>

theorem sao_paulo_round_trip:
  assumes "respond e (Geocoding (js ''sao paulo'')) = Resolves sao_paulo_geo"
    and "respond e (Forecast (JNum (Fin (- (47 / 2)))) (JNum (Fin (- (233 / 5))))) =
           Resolves sao_paulo_forecast"
  shows "fetchWeather e (st\<lparr>city := js ''sao paulo''\<rparr>) =
     \<lparr>final = st\<lparr>city := js ''sao paulo'', loading := False, error := JNull,
                  weatherData :=
                    JObj [(js ''city'', JStr (js (''S'' @ [CHR 0xE3] @ ''o Paulo''))),
                          (js ''region'', JStr (js ''SP'')),
                          (js ''country'', JStr (js ''BR'')),
                          (js ''temp'', JNum (Fin 21)),
                          (js ''code'', JNum (Fin 3))]\<rparr>,
      effects = [KeyboardDismiss, Fetch (Geocoding (js ''sao paulo'')),
                 Fetch (Forecast (JNum (Fin (- (47 / 2)))) (JNum (Fin (- (233 / 5)))))],
      promise = Fulfilled\<rparr> \<and>
   getWeatherDetails 3 =
     \<lparr>icon = js ''weather-partly-cloudy'', label = js ''Parcialmente Nublado'',
      color = js ''#A0A0A0''\<rparr>"
proof -
  have t: "trim (city (st\<lparr>city := js ''sao paulo''\<rparr>)) \<noteq> []"
    by (simp add: nonblank_sao_paulo)
  have b: "try_block e (city (st\<lparr>city := js ''sao paulo''\<rparr>)) =
    ([Fetch (Geocoding (js ''sao paulo'')),
      Fetch (Forecast (JNum (Fin (- (47 / 2)))) (JNum (Fin (- (233 / 5)))))],
     Normal (JObj [(js ''city'', JStr (js (''S'' @ [CHR 0xE3] @ ''o Paulo''))),
                   (js ''region'', JStr (js ''SP'')),
                   (js ''country'', JStr (js ''BR'')),
                   (js ''temp'', JNum (Fin 21)),
                   (js ''code'', JNum (Fin 3))]))"
    by (simp add: try_block_sao_paulo_forecast [OF assms(1)] assms(2) reading_sao_paulo)
  have c: "getWeatherDetails 3 =
     \<lparr>icon = js ''weather-partly-cloudy'', label = js ''Parcialmente Nublado'',
      color = js ''#A0A0A0''\<rparr>"
    by (simp add: getWeatherDetails_def)
  from fetchWeather_Normal [OF t b] c show ?thesis by simp
qed

text \<open>
  Claim C6 on a network that gives exactly these two responses.
\<close>

theorem sao_paulo_round_trip_witness:
  "respond (env_of sao_paulo_net) (Geocoding (js ''sao paulo'')) = Resolves sao_paulo_geo \<and>
   respond (env_of sao_paulo_net) (Forecast (JNum (Fin (- (47 / 2)))) (JNum (Fin (- (233 / 5))))) =
     Resolves sao_paulo_forecast \<and>
   weatherData (final (fetchWeather (env_of sao_paulo_net) (initial_state\<lparr>city := js ''sao paulo''\<rparr>))) =
     JObj [(js ''city'', JStr (js (''S'' @ [CHR 0xE3] @ ''o Paulo''))),
           (js ''region'', JStr (js ''SP'')),
           (js ''country'', JStr (js ''BR'')),
           (js ''temp'', JNum (Fin 21)),
           (js ''code'', JNum (Fin 3))]"
proof -
  have h1: "respond (env_of sao_paulo_net) (Geocoding (js ''sao paulo'')) = Resolves sao_paulo_geo"
    by (simp add: env_of_def sao_paulo_net_def)
  have h2: "respond (env_of sao_paulo_net)
      (Forecast (JNum (Fin (- (47 / 2)))) (JNum (Fin (- (233 / 5))))) = Resolves sao_paulo_forecast"
    by (simp add: env_of_def sao_paulo_net_def)
  from sao_paulo_round_trip [OF h1 h2, of initial_state] h1 h2 show ?thesis by simp
qed

subsection \<open>No geocoding match\<close>

lemma first_result_absent:
  "map_of kvs (js ''results'') = None \<or> map_of kvs (js ''results'') = Some JNull \<or>
   map_of kvs (js ''results'') = Some (JArr []) \<Longrightarrow>
   first_result e (JObj kvs) = Inl (Error (js (''Cidade n'' @ [CHR 0xE3] @ ''o encontrada.'')))"
  by (auto simp: first_result_def)

lemma try_block_not_found:
  assumes "\<not> lone_surrogate c"
    and "respond e (Geocoding c) = Resolves (JObj kvs)"
    and "map_of kvs (js ''results'') = None \<or> map_of kvs (js ''results'') = Some JNull \<or>
         map_of kvs (js ''results'') = Some (JArr [])"
  shows "try_block e c =
    ([Fetch (Geocoding c)], Throw (Error (js (''Cidade n'' @ [CHR 0xE3] @ ''o encontrada.''))))"
  using assms(1,2) first_result_absent [OF assms(3), of e]
  by (simp add: try_block_def encodeURIComponent_def)

lemma empty_results_run:
  "fetchWeather (env_of empty_results_net) (initial_state\<lparr>city := js ''x''\<rparr>) =
   \<lparr>final = \<lparr>city = js ''x'', weatherData = JNull, loading = False,
              error = JStr (js (''Cidade n'' @ [CHR 0xE3] @ ''o encontrada.''))\<rparr>,
    effects = [KeyboardDismiss, Fetch (Geocoding (js ''x''))], promise = Fulfilled\<rparr>"
proof -
  have "try_block (env_of empty_results_net) (js ''x'') =
    ([Fetch (Geocoding (js ''x''))],
     Throw (Error (js (''Cidade n'' @ [CHR 0xE3] @ ''o encontrada.''))))"
    by (rule try_block_not_found [where kvs = "[(js ''results'', JArr [])]"])
       (simp_all add: wellformed_example env_of_def empty_results_net_def)
  then show ?thesis
    using fetchWeather_Throw [of "initial_state\<lparr>city := js ''x''\<rparr>" "env_of empty_results_net"]
    by (simp add: nonblank_example initial_state_def)
qed

text \<open>
  Claim C3, as stated, gives the stored message as \<open>City not found\<close>. On a geocoding
  body \<open>{results: []}\<close> the stored message is another string.
\<close>

theorem not_found_message_counterexample:
  "respond (env_of empty_results_net) (Geocoding (js ''x'')) =
     Resolves (JObj [(js ''results'', JArr [])]) \<and>
   error (final (fetchWeather (env_of empty_results_net) (initial_state\<lparr>city := js ''x''\<rparr>))) =
     JStr (js (''Cidade n'' @ [CHR 0xE3] @ ''o encontrada.'')) \<and>
   error (final (fetchWeather (env_of empty_results_net) (initial_state\<lparr>city := js ''x''\<rparr>))) \<noteq>
     JStr (js ''City not found'')"
  unfolding empty_results_run by (simp add: env_of_def empty_results_net_def)

text \<open>
  Claim C3, amended. When the query is not blank, the geocoding request is made and its
  body decodes to an object whose \<open>results\<close> is absent, \<open>null\<close> or the empty array,
  the lookup ends with the error message \<open>Cidade nao encontrada.\<close> (its ninth character
  being U+00E3), no weather result, one geocoding request and no forecast request. The
  error is caught: the promise of \<open>fetchWeather\<close> is fulfilled.
\<close>

theorem fetchWeather_not_found:
  assumes "trim (city st) \<noteq> []"
    and "\<not> lone_surrogate (city st)"
    and "respond e (Geocoding (city st)) = Resolves (JObj kvs)"
    and "map_of kvs (js ''results'') = None \<or> map_of kvs (js ''results'') = Some JNull \<or>
         map_of kvs (js ''results'') = Some (JArr [])"
  shows "error (final (fetchWeather e st)) =
           JStr (js (''Cidade n'' @ [CHR 0xE3] @ ''o encontrada.'')) \<and>
         weatherData (final (fetchWeather e st)) = JNull \<and>
         forecast_requests (effects (fetchWeather e st)) = [] \<and>
         geocoding_requests (effects (fetchWeather e st)) = [city st] \<and>
         promise (fetchWeather e st) = Fulfilled"
  using fetchWeather_Throw [OF assms(1) try_block_not_found [OF assms(2,3,4)]]
  by (simp add: forecast_requests_def geocoding_requests_def)

text \<open>
  Claim C3, amended, at the query \<open>x\<close> and the geocoding body \<open>{results: []}\<close>.
\<close>

theorem fetchWeather_not_found_witness:
  "trim (city (initial_state\<lparr>city := js ''x''\<rparr>)) \<noteq> [] \<and>
   \<not> lone_surrogate (city (initial_state\<lparr>city := js ''x''\<rparr>)) \<and>
   respond (env_of empty_results_net) (Geocoding (city (initial_state\<lparr>city := js ''x''\<rparr>))) =
     Resolves (JObj [(js ''results'', JArr [])]) \<and>
   map_of [(js ''results'', JArr [])] (js ''results'') = Some (JArr []) \<and>
   error (final (fetchWeather (env_of empty_results_net) (initial_state\<lparr>city := js ''x''\<rparr>))) =
     JStr (js (''Cidade n'' @ [CHR 0xE3] @ ''o encontrada.'')) \<and>
   forecast_requests
     (effects (fetchWeather (env_of empty_results_net) (initial_state\<lparr>city := js ''x''\<rparr>))) = []"
proof -
  let ?st = "initial_state\<lparr>city := js ''x''\<rparr>"
  have h1: "trim (city ?st) \<noteq> []" by (simp add: nonblank_example)
  have h2: "\<not> lone_surrogate (city ?st)" by (simp add: wellformed_example)
  have h3: "respond (env_of empty_results_net) (Geocoding (city ?st)) =
     Resolves (JObj [(js ''results'', JArr [])])"
    by (simp add: env_of_def empty_results_net_def)
  have h4: "map_of [(js ''results'', JArr [])] (js ''results'') = Some (JArr [])" by simp
  have h4': "map_of [(js ''results'', JArr [])] (js ''results'') = None \<or>
     map_of [(js ''results'', JArr [])] (js ''results'') = Some JNull \<or>
     map_of [(js ''results'', JArr [])] (js ''results'') = Some (JArr [])" by simp
  from fetchWeather_not_found [OF h1 h2 h3 h4'] h1 h2 h3 h4 show ?thesis by blast
qed

subsection \<open>The order of the requests\<close>

lemma try_block_lone_surrogate:
  "lone_surrogate c \<Longrightarrow>
   try_block e c = ([], Throw (URIError (engine_message e MalformedURI)))"
  by (simp add: try_block_def encodeURIComponent_def)

text \<open>
  Claim C4, as stated, has every non-empty query make exactly one geocoding request.
  The query made of the single code unit U+D800 is not blank, and its lookup makes none:
  \<open>encodeURIComponent\<close> raises before \<open>fetch\<close> is called.
\<close>

theorem lone_surrogate_counterexample:
  "trim [0xD800] \<noteq> [] \<and>
   geocoding_requests
     (effects (fetchWeather (env_of sao_paulo_net) (initial_state\<lparr>city := [0xD800]\<rparr>))) = []"
proof -
  have t: "trim (city (initial_state\<lparr>city := [0xD800]\<rparr>)) \<noteq> []"
    by (simp add: trim_empty_iff is_white_space_def)
  have "fst (try_block (env_of sao_paulo_net) [0xD800]) = []"
    by (simp add: try_block_lone_surrogate)
  with fetchWeather_effects [OF t, of "env_of sao_paulo_net"] t show ?thesis
    by (simp add: geocoding_requests_def)
qed

text \<open>
  Claim C4, amended. For every query that is not blank after trimming and holds no
  unpaired surrogate, the lookup makes exactly one geocoding request, for that query. Its
  requests are that one alone, or that one followed by a single forecast request whose
  latitude and longitude are those of element 0 of the \<open>results\<close> of the geocoding
  response, which has resolved by then.
\<close>

theorem fetchWeather_request_order:
  assumes "trim (city st) \<noteq> []" and "\<not> lone_surrogate (city st)"
  shows "geocoding_requests (effects (fetchWeather e st)) = [city st] \<and>
         (effects (fetchWeather e st) = [KeyboardDismiss, Fetch (Geocoding (city st))] \<or>
          (\<exists>geoData results r la lo.
             respond e (Geocoding (city st)) = Resolves geoData \<and>
             get e geoData (js ''results'') = Inr results \<and>
             get e results (js ''0'') = Inr r \<and>
             get e r (js ''latitude'') = Inr la \<and>
             get e r (js ''longitude'') = Inr lo \<and>
             effects (fetchWeather e st) =
               [KeyboardDismiss, Fetch (Geocoding (city st)), Fetch (Forecast la lo)]))"
  using try_block_effects [of e "city st"] assms(2)
  unfolding fetchWeather_effects [OF assms(1)]
  by (auto simp: geocoding_requests_def)

text \<open>
  Claim C4, amended, at the query \<open>sao paulo\<close>.
\<close>

theorem fetchWeather_request_order_witness:
  "trim (city sao_paulo_query) \<noteq> [] \<and> \<not> lone_surrogate (city sao_paulo_query) \<and>
   geocoding_requests (effects (fetchWeather (env_of sao_paulo_net) sao_paulo_query)) =
     [js ''sao paulo'']"
proof -
  have h1: "trim (city sao_paulo_query) \<noteq> []"
    by (simp add: sao_paulo_query_def nonblank_sao_paulo)
  have h2: "\<not> lone_surrogate (city sao_paulo_query)"
    by (simp add: sao_paulo_query_def wellformed_sao_paulo)
  have c: "city sao_paulo_query = js ''sao paulo''"
    by (simp add: sao_paulo_query_def)
  from fetchWeather_request_order [OF h1 h2, of "env_of sao_paulo_net"]
  have "geocoding_requests (effects (fetchWeather (env_of sao_paulo_net) sao_paulo_query)) =
     [city sao_paulo_query]" by (rule conjunct1)
  with h1 h2 c show ?thesis by simp
qed

subsection \<open>Blank queries\<close>

text \<open>
  Claim C5. When every code unit of the query is white space (the empty query included),
  \<open>fetchWeather\<close> returns at once: no effect, so no request; the promise is fulfilled, so
  no error is raised; and the state, with its result, error message and loading flag, is
  the state it was called in.
\<close>

theorem fetchWeather_blank_noop:
  assumes "list_all is_white_space (city st)"
  shows "fetchWeather e st = \<lparr>final = st, effects = [], promise = Fulfilled\<rparr>"
  using assms by (simp add: fetchWeather_blank trim_empty_iff)

text \<open>
  Claim C5 at the query of three spaces and at the empty query.
\<close>

theorem fetchWeather_blank_noop_witness:
  "list_all is_white_space (city (initial_state\<lparr>city := js ''   ''\<rparr>)) \<and>
   list_all is_white_space (city initial_state) \<and>
   fetchWeather (env_of sao_paulo_net) (initial_state\<lparr>city := js ''   ''\<rparr>) =
     \<lparr>final = initial_state\<lparr>city := js ''   ''\<rparr>, effects = [], promise = Fulfilled\<rparr> \<and>
   fetchWeather (env_of sao_paulo_net) initial_state =
     \<lparr>final = initial_state, effects = [], promise = Fulfilled\<rparr>"
proof -
  have h1: "list_all is_white_space (city (initial_state\<lparr>city := js ''   ''\<rparr>))"
    by (simp add: js_def is_white_space_def)
  have h2: "list_all is_white_space (city initial_state)"
    by (simp add: initial_state_def)
  from fetchWeather_blank_noop [OF h1] fetchWeather_blank_noop [OF h2] h1 h2
  show ?thesis by blast
qed

subsection \<open>Failures of the network\<close>



subsection \<open>Two lookups that overlap\<close>





subsection \<open>What a failed lookup stores\<close>




subsection \<open>The loading flag, and error against result\<close>

text \<open>
  Claim C8. After every lookup of a query that is not blank and whose promise settles,
  whether by a stored result or by a stored error, the loading flag is false.
\<close>

theorem loading_cleared:
  assumes "trim (city st) \<noteq> []" and "promise (fetchWeather e st) \<noteq> Unsettled"
  shows "\<not> loading (final (fetchWeather e st))"
  using settled_run [OF assms] by simp

text \<open>
  Claim C8 at the round trip of \<open>sao paulo\<close>.
\<close>

theorem loading_cleared_witness:
  "trim (city sao_paulo_query) \<noteq> [] \<and>
   promise (fetchWeather (env_of sao_paulo_net) sao_paulo_query) \<noteq> Unsettled \<and>
   \<not> loading (final (fetchWeather (env_of sao_paulo_net) sao_paulo_query))"
proof -
  have h1: "trim (city sao_paulo_query) \<noteq> []"
    by (simp add: sao_paulo_query_def nonblank_sao_paulo)
  have h2: "promise (fetchWeather (env_of sao_paulo_net) sao_paulo_query) \<noteq> Unsettled"
    by (simp add: sao_paulo_settles)
  from loading_cleared [OF h1 h2] h1 h2 show ?thesis by blast
qed




subsection \<open>A forecast response without data\<close>

lemma try_block_forecast_resolved:
  "Fetch (Forecast la lo) \<in> set (fst (try_block e c)) \<Longrightarrow>
   respond e (Forecast la lo) = Resolves w \<Longrightarrow>
   \<exists>nm a1 cc. snd (try_block e c) =
     (case reading e nm a1 cc w of Inl err \<Rightarrow> Throw err | Inr v \<Rightarrow> Normal v)"
  by (auto simp: try_block_def split: sum.splits response.splits prod.splits)
     (metis Inl_inject Inr_inject Inl_Inr_False)+

lemma reading_no_current:
  "map_of kvs (js ''current'') = None \<or> map_of kvs (js ''current'') = Some JNull \<Longrightarrow>
   \<exists>v. reading e nm a1 cc (JObj kvs) =
     Inl (TypeError (engine_message e (ReadProperty v (js ''temperature_2m''))))"
  by (auto simp: reading_def)

lemma reading_empty_current:
  "map_of kvs (js ''current'') = Some (JObj cs) \<Longrightarrow>
   map_of cs (js ''temperature_2m'') = None \<Longrightarrow> map_of cs (js ''weather_code'') = None \<Longrightarrow>
   reading e nm a1 cc (JObj kvs) =
     Inr (JObj [(js ''city'', nm), (js ''region'', a1), (js ''country'', cc),
                (js ''temp'', JNum NaN), (js ''code'', JUndefined)])"
  by (simp add: reading_def)

lemma missing_data_effects:
  assumes "respond e (Geocoding (js ''sao paulo'')) = Resolves sao_paulo_geo"
  shows "effects (fetchWeather e sao_paulo_query) =
     [KeyboardDismiss, Fetch (Geocoding (js ''sao paulo'')),
      Fetch (Forecast (JNum (Fin (- (47 / 2)))) (JNum (Fin (- (233 / 5)))))]"
proof -
  have t: "trim (city sao_paulo_query) \<noteq> []"
    by (simp add: sao_paulo_query_def nonblank_sao_paulo)
  show ?thesis
    unfolding fetchWeather_effects [OF t]
    by (simp add: sao_paulo_query_def try_block_sao_paulo_forecast [OF assms])
qed

text \<open>
  Claim C10, as stated, has a forecast response without \<open>temperature_2m\<close> and
  \<open>weather_code\<close> end in the error state with no reading. On the forecast body
  \<open>{current: {}}\<close> the lookup stores a reading and no error.
\<close>

theorem nan_reading_counterexample:
  "respond (env_of empty_current_net)
     (Forecast (JNum (Fin (- (47 / 2)))) (JNum (Fin (- (233 / 5))))) =
     Resolves (JObj [(js ''current'', JObj [])]) \<and>
   error (final (fetchWeather (env_of empty_current_net) sao_paulo_query)) = JNull \<and>
   weatherData (final (fetchWeather (env_of empty_current_net) sao_paulo_query)) =
     JObj [(js ''city'', JStr (js (''S'' @ [CHR 0xE3] @ ''o Paulo''))),
           (js ''region'', JStr (js ''SP'')),
           (js ''country'', JStr (js ''BR'')),
           (js ''temp'', JNum NaN),
           (js ''code'', JUndefined)]"
proof -
  have t: "trim (city sao_paulo_query) \<noteq> []"
    by (simp add: sao_paulo_query_def nonblank_sao_paulo)
  have g: "respond (env_of empty_current_net) (Geocoding (js ''sao paulo'')) =
    Resolves sao_paulo_geo"
    by (simp add: env_of_def empty_current_net_def)
  have f: "respond (env_of empty_current_net)
      (Forecast (JNum (Fin (- (47 / 2)))) (JNum (Fin (- (233 / 5))))) =
    Resolves (JObj [(js ''current'', JObj [])])"
    by (simp add: env_of_def empty_current_net_def)
  have "try_block (env_of empty_current_net) (city sao_paulo_query) =
    (fst (try_block (env_of empty_current_net) (city sao_paulo_query)),
     Normal (JObj [(js ''city'', JStr (js (''S'' @ [CHR 0xE3] @ ''o Paulo''))),
           (js ''region'', JStr (js ''SP'')),
           (js ''country'', JStr (js ''BR'')),
           (js ''temp'', JNum NaN),
           (js ''code'', JUndefined)]))"
    by (simp add: sao_paulo_query_def try_block_sao_paulo_forecast [OF g] f
          reading_empty_current [where cs = "[]"])
  from fetchWeather_Normal [OF t this] f show ?thesis by simp
qed

text \<open>
  Claim C10, amended. Take a forecast request the lookup made, answered by an object.
  When its \<open>current\<close> is absent or \<open>null\<close>, reading \<open>temperature_2m\<close> raises TypeError,
  the handler stores a non-empty message, no reading is stored, the loading flag is
  cleared and the error does not leave \<open>fetchWeather\<close>. When its \<open>current\<close> is an object
  without \<open>temperature_2m\<close> and \<open>weather_code\<close>, nothing raises: the lookup stores a
  reading whose \<open>temp\<close> is NaN and whose \<open>code\<close> is \<open>undefined\<close>, with no error.
\<close>

theorem forecast_without_current:
  assumes "Fetch (Forecast la lo) \<in> set (effects (fetchWeather e st))"
    and "respond e (Forecast la lo) = Resolves (JObj kvs)"
  shows "(map_of kvs (js ''current'') = None \<or> map_of kvs (js ''current'') = Some JNull \<longrightarrow>
            (\<exists>m. m \<noteq> [] \<and> error (final (fetchWeather e st)) = JStr m) \<and>
            weatherData (final (fetchWeather e st)) = JNull \<and>
            \<not> loading (final (fetchWeather e st)) \<and>
            promise (fetchWeather e st) = Fulfilled) \<and>
         (\<forall>cs. map_of kvs (js ''current'') = Some (JObj cs) \<and>
               map_of cs (js ''temperature_2m'') = None \<and>
               map_of cs (js ''weather_code'') = None \<longrightarrow>
            error (final (fetchWeather e st)) = JNull \<and>
            (\<exists>nm a1 cc. weatherData (final (fetchWeather e st)) =
               JObj [(js ''city'', nm), (js ''region'', a1), (js ''country'', cc),
                     (js ''temp'', JNum NaN), (js ''code'', JUndefined)]) \<and>
            \<not> loading (final (fetchWeather e st)) \<and>
            promise (fetchWeather e st) = Fulfilled)"
proof -
  from issued_request [OF assms(1)]
  have t: "trim (city st) \<noteq> []"
    and i: "Fetch (Forecast la lo) \<in> set (fst (try_block e (city st)))"
    by simp_all
  from try_block_forecast_resolved [OF i assms(2)]
  obtain nm a1 cc where b: "snd (try_block e (city st)) =
     (case reading e nm a1 cc (JObj kvs) of Inl err \<Rightarrow> Throw err | Inr v \<Rightarrow> Normal v)"
    by blast
  have first: "(\<exists>m. m \<noteq> [] \<and> error (final (fetchWeather e st)) = JStr m) \<and>
            weatherData (final (fetchWeather e st)) = JNull \<and>
            \<not> loading (final (fetchWeather e st)) \<and>
            promise (fetchWeather e st) = Fulfilled"
    if "map_of kvs (js ''current'') = None \<or> map_of kvs (js ''current'') = Some JNull"
  proof -
    from reading_no_current [OF that, of e nm a1 cc] b
    obtain err where "try_block e (city st) = (fst (try_block e (city st)), Throw err)"
      by (auto simp: prod_eq_iff)
    from fetchWeather_Throw [OF t this] show ?thesis by simp
  qed
  have second: "error (final (fetchWeather e st)) = JNull \<and>
            (\<exists>nm a1 cc. weatherData (final (fetchWeather e st)) =
               JObj [(js ''city'', nm), (js ''region'', a1), (js ''country'', cc),
                     (js ''temp'', JNum NaN), (js ''code'', JUndefined)]) \<and>
            \<not> loading (final (fetchWeather e st)) \<and>
            promise (fetchWeather e st) = Fulfilled"
    if "map_of kvs (js ''current'') = Some (JObj cs) \<and>
        map_of cs (js ''temperature_2m'') = None \<and>
        map_of cs (js ''weather_code'') = None" for cs
  proof -
    from that reading_empty_current [of kvs cs e nm a1 cc] b
    have "try_block e (city st) = (fst (try_block e (city st)),
      Normal (JObj [(js ''city'', nm), (js ''region'', a1), (js ''country'', cc),
                    (js ''temp'', JNum NaN), (js ''code'', JUndefined)]))"
      by (simp add: prod_eq_iff)
    from fetchWeather_Normal [OF t this] show ?thesis by simp
  qed
  from first second show ?thesis by blast
qed

text \<open>
  Claim C10, amended, on the forecast bodies \<open>{}\<close> and \<open>{current: {}}\<close>.
\<close>

theorem forecast_without_current_witness:
  "Fetch (Forecast (JNum (Fin (- (47 / 2)))) (JNum (Fin (- (233 / 5))))) \<in>
     set (effects (fetchWeather (env_of no_current_net) sao_paulo_query)) \<and>
   respond (env_of no_current_net)
     (Forecast (JNum (Fin (- (47 / 2)))) (JNum (Fin (- (233 / 5))))) = Resolves (JObj []) \<and>
   map_of [] (js ''current'') = (None :: jsval option) \<and>
   weatherData (final (fetchWeather (env_of no_current_net) sao_paulo_query)) = JNull \<and>
   \<not> loading (final (fetchWeather (env_of no_current_net) sao_paulo_query)) \<and>
   Fetch (Forecast (JNum (Fin (- (47 / 2)))) (JNum (Fin (- (233 / 5))))) \<in>
     set (effects (fetchWeather (env_of empty_current_net) sao_paulo_query)) \<and>
   respond (env_of empty_current_net)
     (Forecast (JNum (Fin (- (47 / 2)))) (JNum (Fin (- (233 / 5))))) =
     Resolves (JObj [(js ''current'', JObj [])]) \<and>
   map_of [(js ''current'', JObj [])] (js ''current'') = Some (JObj []) \<and>
   map_of [] (js ''temperature_2m'') = (None :: jsval option) \<and>
   map_of [] (js ''weather_code'') = (None :: jsval option) \<and>
   error (final (fetchWeather (env_of empty_current_net) sao_paulo_query)) = JNull"
proof -
  have a1: "Fetch (Forecast (JNum (Fin (- (47 / 2)))) (JNum (Fin (- (233 / 5))))) \<in>
     set (effects (fetchWeather (env_of no_current_net) sao_paulo_query))"
    by (simp add: missing_data_effects env_of_def no_current_net_def)
  have a2: "respond (env_of no_current_net)
     (Forecast (JNum (Fin (- (47 / 2)))) (JNum (Fin (- (233 / 5))))) = Resolves (JObj [])"
    by (simp add: env_of_def no_current_net_def)
  have a3: "map_of [] (js ''current'') = (None :: jsval option)" by simp
  have b1: "Fetch (Forecast (JNum (Fin (- (47 / 2)))) (JNum (Fin (- (233 / 5))))) \<in>
     set (effects (fetchWeather (env_of empty_current_net) sao_paulo_query))"
    by (simp add: missing_data_effects env_of_def empty_current_net_def)
  have b2: "respond (env_of empty_current_net)
     (Forecast (JNum (Fin (- (47 / 2)))) (JNum (Fin (- (233 / 5))))) =
     Resolves (JObj [(js ''current'', JObj [])])"
    by (simp add: env_of_def empty_current_net_def)
  have b3: "map_of [(js ''current'', JObj [])] (js ''current'') = Some (JObj [])" by simp
  have b4: "map_of [] (js ''temperature_2m'') = (None :: jsval option)" by simp
  have b5: "map_of [] (js ''weather_code'') = (None :: jsval option)" by simp
  from forecast_without_current [OF a1 a2] a3
  have c1: "weatherData (final (fetchWeather (env_of no_current_net) sao_paulo_query)) = JNull"
    and c2: "\<not> loading (final (fetchWeather (env_of no_current_net) sao_paulo_query))"
    by blast+
  from forecast_without_current [OF b1 b2] b3 b4 b5
  have c3: "error (final (fetchWeather (env_of empty_current_net) sao_paulo_query)) = JNull"
    by blast
  from a1 a2 a3 b1 b2 b3 b4 b5 c1 c2 c3 show ?thesis by blast
qed

end
